theory Spec2Isabelle
  imports Complex_Main
begin

section \<open>Annotations and feedback on spans: \<^verbatim>\<open>logfire/experimental/annotations.py\<close>\<close>

text \<open>
  The module is three functions over two libraries: \<^verbatim>\<open>get_traceparent\<close> serialises a
  span's context, \<^verbatim>\<open>raw_annotate_span\<close> emits one annotation span under a serialised
  context, \<^verbatim>\<open>record_feedback\<close> builds the feedback attributes and delegates to it.
  Both emitting functions merge in the result of \<^verbatim>\<open>_random_attrs\<close>.

  The embedding makes three things explicit that Python leaves implicit:
  \<^item> the tracing backend is a log of the calls made to \<^verbatim>\<open>feedback_logfire.info\<close>; a
    function that emits takes the log and returns it extended;
  \<^item> an exception is a value: every function that can raise returns
    \<open>py_error + 'a\<close>, paired with the log as it is when the function is left;
  \<^item> the outcomes of the calls into \<^verbatim>\<open>random\<close>, \<^verbatim>\<open>uuid\<close> and \<^verbatim>\<open>time\<close> made by one
    run of \<^verbatim>\<open>_random_attrs\<close> are an argument (\<open>draws\<close>), so that "for every random
    draw" is a universal quantifier.
\<close>

subsection \<open>Values, dictionaries, exceptions\<close>

text \<open>
  The attribute values the module handles (\<^verbatim>\<open>Any\<close> in the annotations; the feedback value
  is \<^verbatim>\<open>int | float | bool | str\<close>). A finite float is the rational it denotes.
\<close>

datatype pyval =
    PyNone
  | PyBool bool
  | PyInt int
  | PyFloat rat
  | PyStr string

text \<open>A \<^verbatim>\<open>dict[str, Any]\<close>; the order of insertion is not observed by anything here.\<close>

type_synonym attrs = "string \<rightharpoonup> pyval"

datatype py_error = AssertionError | TypeError

subsection \<open>Module constants\<close>

text \<open>
  \<^verbatim>\<open>RANDOMIZE\<close> is computed once at import from the environment.
  \<^verbatim>\<open>ATTRIBUTES_MESSAGE_KEY\<close> and \<^verbatim>\<open>ATTRIBUTES_SPAN_TYPE_KEY\<close> are imported from
  \<^verbatim>\<open>logfire._internal.constants\<close>, which is not part of the sources at hand: their
  values are parameters.
\<close>

record config =
  RANDOMIZE :: bool
  ATTRIBUTES_MESSAGE_KEY :: string
  ATTRIBUTES_SPAN_TYPE_KEY :: string

definition TRACEPARENT_NAME :: string where
  "TRACEPARENT_NAME = ''traceparent''"

subsection \<open>The standard-library calls of \<^verbatim>\<open>_random_attrs\<close>\<close>

text \<open>
  One field per call, in the order of the source. The three integer-valued calls and
  \<^verbatim>\<open>random.random()\<close> are functions of the entropy the generator hands out (a natural
  number); \<^verbatim>\<open>str(uuid.uuid4())\<close> and \<^verbatim>\<open>time.time()\<close> are taken as they come.
\<close>

record draws =
  uuid4_str :: string
  choice_entropy :: nat
  randint_entropy :: nat
  time_time :: rat
  getrandbits_entropy :: nat
  random_entropy :: nat

text \<open>\<^verbatim>\<open>random.choice(seq)\<close> is \<^verbatim>\<open>seq[randbelow(len(seq))]\<close>. It raises on an empty
  sequence; its one call here passes a literal of nine elements.\<close>

definition random_choice :: "'a list \<Rightarrow> nat \<Rightarrow> 'a" where
  "random_choice seq r = seq ! (r mod length seq)"

text \<open>\<^verbatim>\<open>random.randint(a, b)\<close> is \<^verbatim>\<open>a + randbelow(b - a + 1)\<close>. It raises on an empty
  range; its one call here passes 1 and 9000.\<close>

definition random_randint :: "int \<Rightarrow> int \<Rightarrow> nat \<Rightarrow> int" where
  "random_randint a b r = a + int (r mod nat (b - a + 1))"

text \<open>\<^verbatim>\<open>random.getrandbits(k)\<close>: a non-negative integer of \<open>k\<close> random bits.\<close>

definition random_getrandbits :: "nat \<Rightarrow> nat \<Rightarrow> int" where
  "random_getrandbits k r = int (r mod 2 ^ k)"

text \<open>\<^verbatim>\<open>random.random()\<close>: 53 random bits scaled into \<open>[0, 1)\<close>.\<close>

definition random_random :: "nat \<Rightarrow> rat" where
  "random_random r = of_nat (r mod 2 ^ 53) / 2 ^ 53"

text \<open>The float that the literal \<^verbatim>\<open>0.05\<close> denotes (the double nearest to 1/20).\<close>

definition float_0_05 :: rat where
  "float_0_05 = 3602879701896397 / 2 ^ 56"

subsection \<open>\<^verbatim>\<open>_random_attrs\<close>\<close>

text \<open>The nine strings of \<^verbatim>\<open>emojis\<close>, as the UTF-8 bytes of the source file.\<close>

definition emojis :: "string list" where
  "emojis =
    [[CHR 0xE2, CHR 0x9C, CHR 0xA8],
     [CHR 0xF0, CHR 0x9F, CHR 0x94, CHR 0xA5],
     [CHR 0xF0, CHR 0x9F, CHR 0x8C, CHR 0x88],
     [CHR 0xF0, CHR 0x9F, CHR 0x9B, CHR 0xB0, CHR 0xEF, CHR 0xB8, CHR 0x8F],
     [CHR 0xF0, CHR 0x9F, CHR 0xA6, CHR 0x84],
     [CHR 0xF0, CHR 0x9F, CHR 0x92, CHR 0xAB],
     [CHR 0xF0, CHR 0x9F, CHR 0xA4, CHR 0x96],
     [CHR 0xF0, CHR 0x9F, CHR 0x8D, CHR 0x80],
     [CHR 0xE2, CHR 0x98, CHR 0x95]]"

definition random_attrs :: "config \<Rightarrow> draws \<Rightarrow> attrs" where
  "random_attrs cfg d =
    (if \<not> RANDOMIZE cfg then Map.empty
     else
       let attrs =
             [''x-random-uuid'' \<mapsto> PyStr (uuid4_str d),
              ''x-random-emoji'' \<mapsto> PyStr (random_choice emojis (choice_entropy d)),
              ''x-random-power'' \<mapsto> PyInt (random_randint 1 9000 (randint_entropy d)),
              ''x-random-ts'' \<mapsto> PyFloat (time_time d),
              ''x-random-seed'' \<mapsto> PyInt (random_getrandbits 32 (getrandbits_entropy d))]
       in if random_random (random_entropy d) < float_0_05
          then attrs(''x-random-easter-egg'' \<mapsto> PyStr ''may_the_force_be_with_you'')
          else attrs)"

subsection \<open>\<^verbatim>\<open>get_traceparent\<close>\<close>

text \<open>
  The argument is a raw \<^verbatim>\<open>Span\<close> or a \<^verbatim>\<open>LogfireSpan\<close>, whose \<^verbatim>\<open>_span\<close> is a raw span or
  \<^verbatim>\<open>None\<close>. A span object is truthy, \<^verbatim>\<open>None\<close> is not, so \<^verbatim>\<open>assert real_span\<close> fails
  exactly on \<^verbatim>\<open>None\<close>.

  \<^verbatim>\<open>set_span_in_context\<close> and the propagator's \<^verbatim>\<open>inject\<close> belong to OpenTelemetry; they
  are parameters. \<^verbatim>\<open>inject\<close> writes into the carrier it is given; here it returns the
  carrier it leaves behind.
\<close>

datatype 's span_arg = Span 's | LogfireSpan "'s option"

type_synonym carrier = "string \<rightharpoonup> string"

definition get_traceparent ::
  "('s \<Rightarrow> 'c) \<Rightarrow> ('c \<Rightarrow> carrier \<Rightarrow> carrier) \<Rightarrow> 's span_arg \<Rightarrow> py_error + string" where
  "get_traceparent set_span_in_context inject a_span =
    (case (case a_span of
             Span s \<Rightarrow> Inr s
           | LogfireSpan None \<Rightarrow> Inl AssertionError
           | LogfireSpan (Some s) \<Rightarrow> Inr s) of
       Inl e \<Rightarrow> Inl e
     | Inr real_span \<Rightarrow>
         let context = set_span_in_context real_span;
             carrier = inject context Map.empty
         in Inr (case carrier TRACEPARENT_NAME of None \<Rightarrow> '''' | Some v \<Rightarrow> v))"

subsection \<open>\<^verbatim>\<open>raw_annotate_span\<close>\<close>

text \<open>
  One entry of the backend's log: a call of \<^verbatim>\<open>feedback_logfire.info\<close>, with the carrier
  handed to \<^verbatim>\<open>attach_context\<close> around it, the scope suffix of \<^verbatim>\<open>feedback_logfire\<close>, the
  positional argument and the keyword arguments.
\<close>

record emitted =
  attached :: carrier
  custom_scope_suffix :: string
  msg_template :: string
  kwargs :: attrs

type_synonym backend = "emitted list"

text \<open>
  The call \<^verbatim>\<open>info(span_name, **decorated_attributes, **{...})\<close> unpacks two dictionaries
  into one set of keyword arguments: a key that occurs in both is a \<^verbatim>\<open>TypeError\<close>
  (multiple values for a keyword argument), raised before \<^verbatim>\<open>info\<close> is entered. The
  second dictionary is a literal, so within it a later entry replaces an earlier one.
\<close>

definition raw_annotate_span ::
  "config \<Rightarrow> draws \<Rightarrow> string \<Rightarrow> string \<Rightarrow> string \<Rightarrow> attrs \<Rightarrow> backend
     \<Rightarrow> (py_error + unit) \<times> backend" where
  "raw_annotate_span cfg d traceparent span_name message attributes spans =
    (let decorated_attributes = attributes ++ random_attrs cfg d;
         reserved = [ATTRIBUTES_MESSAGE_KEY cfg \<mapsto> PyStr message,
                     ATTRIBUTES_SPAN_TYPE_KEY cfg \<mapsto> PyStr ''annotation'']
     in if decorated_attributes (ATTRIBUTES_MESSAGE_KEY cfg) = None
           \<and> decorated_attributes (ATTRIBUTES_SPAN_TYPE_KEY cfg) = None
        then (Inr (),
              spans @ [\<lparr>attached = [TRACEPARENT_NAME \<mapsto> traceparent],
                        custom_scope_suffix = ''feedback'',
                        msg_template = span_name,
                        kwargs = decorated_attributes ++ reserved\<rparr>])
        else (Inl TypeError, spans))"

text \<open>The keyword arguments of a call other than the two reserved ones.\<close>

definition attributes_of :: "config \<Rightarrow> emitted \<Rightarrow> attrs" where
  "attributes_of cfg e =
    (\<lambda>k. if k = ATTRIBUTES_MESSAGE_KEY cfg \<or> k = ATTRIBUTES_SPAN_TYPE_KEY cfg
         then None else kwargs e k)"

subsection \<open>\<^verbatim>\<open>record_feedback\<close>\<close>

text \<open>
  \<^verbatim>\<open>if extra:\<close> and \<^verbatim>\<open>if comment:\<close> test truthiness: \<^verbatim>\<open>None\<close>, the empty dictionary and
  the empty string are falsy, so the assertion is reached only for a non-empty \<^verbatim>\<open>extra\<close>.
  \<^verbatim>\<open>repr\<close> is Python's built-in, a parameter. The function runs \<^verbatim>\<open>_random_attrs\<close> itself
  (\<open>d1\<close>) and again inside \<^verbatim>\<open>raw_annotate_span\<close> (\<open>d2\<close>).
\<close>

definition record_feedback ::
  "config \<Rightarrow> draws \<Rightarrow> draws \<Rightarrow> (pyval \<Rightarrow> string) \<Rightarrow> string \<Rightarrow> string \<Rightarrow> pyval
     \<Rightarrow> string option \<Rightarrow> attrs option \<Rightarrow> backend \<Rightarrow> (py_error + unit) \<times> backend" where
  "record_feedback cfg d1 d2 repr traceparent name val comment extra spans =
    (let attributes = [''logfire.feedback.name'' \<mapsto> PyStr name, name \<mapsto> val];
         merged =
           (case extra of
              None \<Rightarrow> Inr attributes
            | Some e \<Rightarrow>
                if e = Map.empty then Inr attributes
                else if e name \<noteq> None then Inl AssertionError
                else Inr (attributes ++ e))
     in case merged of
          Inl err \<Rightarrow> (Inl err, spans)
        | Inr attributes \<Rightarrow>
            let attributes =
                  (case comment of
                     None \<Rightarrow> attributes
                   | Some c \<Rightarrow>
                       if c = [] then attributes
                       else attributes(''logfire.feedback.comment'' \<mapsto> PyStr c));
                attributes = attributes ++ random_attrs cfg d1
            in raw_annotate_span cfg d2 traceparent
                 (''feedback: '' @ name)
                 (''feedback: '' @ name @ '' = '' @ repr val)
                 attributes spans)"

subsection \<open>The trace-context propagator\<close>

text \<open>
  Modelled from the spec: the propagator (\<^verbatim>\<open>TraceContextTextMapPropagator\<close>, with
  \<^verbatim>\<open>set_span_in_context\<close>) belongs to OpenTelemetry and is not part of the sources. The
  spec describes the header as the W3C trace-context string
  \<^verbatim>\<open>version-traceid-spanid-flags\<close> that encodes (trace-id, span-id, sampling flags), and
  says that no header is produced for an invalid span context. In that format the
  version is \<^verbatim>\<open>00\<close>, and the trace-id, span-id and flags are 32, 16 and 2 lowercase
  hexadecimal digits; an identifier is valid when it is not zero and fits its width.
\<close>

record span_context =
  trace_id :: nat
  span_id :: nat
  trace_flags :: nat

definition is_valid :: "span_context \<Rightarrow> bool" where
  "is_valid sc =
    (0 < trace_id sc \<and> trace_id sc < 2 ^ 128 \<and> 0 < span_id sc \<and> span_id sc < 2 ^ 64)"

definition hex_digit :: "nat \<Rightarrow> char" where
  "hex_digit d = ''0123456789abcdef'' ! d"

text \<open>\<open>hex w n\<close>: the \<open>w\<close> lowest hexadecimal digits of \<open>n\<close>, most significant first.\<close>

fun hex :: "nat \<Rightarrow> nat \<Rightarrow> string" where
  "hex 0 n = []"
| "hex (Suc w) n = hex w (n div 16) @ [hex_digit (n mod 16)]"

definition digit_value :: "char \<Rightarrow> nat option" where
  "digit_value c =
    (let k = (of_char c :: nat)
     in if 48 \<le> k \<and> k \<le> 57 then Some (k - 48)
        else if 97 \<le> k \<and> k \<le> 102 then Some (k - 87)
        else None)"

fun unhex_from :: "nat \<Rightarrow> string \<Rightarrow> nat option" where
  "unhex_from acc [] = Some acc"
| "unhex_from acc (c # cs) =
     (case digit_value c of None \<Rightarrow> None | Some d \<Rightarrow> unhex_from (16 * acc + d) cs)"

definition unhex :: "string \<Rightarrow> nat option" where
  "unhex s = unhex_from 0 s"

text \<open>The fields of a header: the pieces between its dashes.\<close>

fun fields :: "string \<Rightarrow> string list" where
  "fields [] = [[]]"
| "fields (c # cs) =
     (if c = CHR ''-'' then [] # fields cs
      else case fields cs of [] \<Rightarrow> [[c]] | f # fs \<Rightarrow> (c # f) # fs)"

text \<open>The context a span is put in holds the span's context.\<close>

definition otel_set_span_in_context :: "span_context \<Rightarrow> span_context option" where
  "otel_set_span_in_context real_span = Some real_span"

definition otel_inject :: "span_context option \<Rightarrow> carrier \<Rightarrow> carrier" where
  "otel_inject context carrier =
    (case context of
       None \<Rightarrow> carrier
     | Some sc \<Rightarrow>
         if is_valid sc
         then carrier(TRACEPARENT_NAME \<mapsto>
                ''00-'' @ hex 32 (trace_id sc) @ ''-'' @ hex 16 (span_id sc)
                  @ ''-'' @ hex 2 (trace_flags sc))
         else carrier)"

definition otel_extract :: "carrier \<Rightarrow> span_context option" where
  "otel_extract carrier =
    (case carrier TRACEPARENT_NAME of
       None \<Rightarrow> None
     | Some header \<Rightarrow>
         (case fields header of
            [version, tid, sid, flags] \<Rightarrow>
              if length version = 2 \<and> length tid = 32 \<and> length sid = 16 \<and> length flags = 2
              then (case (unhex version, unhex tid, unhex sid, unhex flags) of
                      (Some v, Some t, Some s, Some f) \<Rightarrow>
                        if v = 0 \<and> 0 < t \<and> 0 < s
                        then Some \<lparr>trace_id = t, span_id = s, trace_flags = f\<rparr>
                        else None
                    | _ \<Rightarrow> None)
              else None
          | _ \<Rightarrow> None))"

text \<open>A span with the identifiers of the example header.\<close>

definition example_span :: span_context where
  "example_span =
    \<lparr>trace_id = 0x0af7651916cd43dd8448eb211c80319c, span_id = 0xb7ad6b7169203331,
     trace_flags = 1\<rparr>"

subsection \<open>Names used in the statements\<close>

text \<open>The keys \<^verbatim>\<open>_random_attrs\<close> can write, in the order of the source.\<close>

definition decorative_keys :: "string list" where
  "decorative_keys =
    [''x-random-uuid'', ''x-random-emoji'', ''x-random-power'', ''x-random-ts'',
     ''x-random-seed'', ''x-random-easter-egg'']"

text \<open>
  A configuration and two runs of the standard-library calls, for the concrete instances.
  The two reserved keys have the values of the released library. The first run does not
  roll the easter egg (\<open>2^52 / 2^53 = 1/2\<close>), the second does (\<open>5 / 2^53\<close>).
\<close>

definition example_config :: config where
  "example_config =
    \<lparr>RANDOMIZE = True, ATTRIBUTES_MESSAGE_KEY = ''logfire.msg'',
     ATTRIBUTES_SPAN_TYPE_KEY = ''logfire.span_type''\<rparr>"

definition draws_a :: draws where
  "draws_a =
    \<lparr>uuid4_str = ''9f1c2a44-7b7e-4d0a-8a55-3c1f0e6b2d10'', choice_entropy = 12,
     randint_entropy = 123456, time_time = 1730000000, getrandbits_entropy = 2 ^ 40 + 7,
     random_entropy = 2 ^ 52\<rparr>"

definition draws_b :: draws where
  "draws_b =
    \<lparr>uuid4_str = ''0b8e6c1d-2f43-4c9a-b1de-5a7709c4e3f2'', choice_entropy = 4,
     randint_entropy = 8999, time_time = 1730000001, getrandbits_entropy = 99,
     random_entropy = 5\<rparr>"

definition example_traceparent :: string where
  "example_traceparent = ''00-0af7651916cd43dd8448eb211c80319c-b7ad6b7169203331-01''"

text \<open>The log entry \<^verbatim>\<open>raw_annotate_span\<close> appends, given the decorated attributes.\<close>

definition call_of :: "config \<Rightarrow> string \<Rightarrow> string \<Rightarrow> string \<Rightarrow> attrs \<Rightarrow> emitted" where
  "call_of cfg traceparent span_name message decorated =
    \<lparr>attached = [TRACEPARENT_NAME \<mapsto> traceparent],
     custom_scope_suffix = ''feedback'',
     msg_template = span_name,
     kwargs = decorated ++ [ATTRIBUTES_MESSAGE_KEY cfg \<mapsto> PyStr message,
                            ATTRIBUTES_SPAN_TYPE_KEY cfg \<mapsto> PyStr ''annotation'']\<rparr>"

text \<open>
  The attributes \<^verbatim>\<open>record_feedback\<close> has built when it reaches its own call of
  \<^verbatim>\<open>_random_attrs\<close> (updating with an empty \<^verbatim>\<open>extra\<close> changes nothing), and whether
  \<^verbatim>\<open>extra\<close> is a dictionary that holds a given key (for the key \<^verbatim>\<open>name\<close>, the condition
  under which the assertion fails).
\<close>

definition feedback_attributes ::
  "string \<Rightarrow> pyval \<Rightarrow> string option \<Rightarrow> attrs option \<Rightarrow> attrs" where
  "feedback_attributes name val comment extra =
    (let attributes = [''logfire.feedback.name'' \<mapsto> PyStr name, name \<mapsto> val];
         attributes = (case extra of None \<Rightarrow> attributes | Some e \<Rightarrow> attributes ++ e)
     in case comment of
          None \<Rightarrow> attributes
        | Some c \<Rightarrow>
            if c = [] then attributes
            else attributes(''logfire.feedback.comment'' \<mapsto> PyStr c))"

definition extra_holds :: "string \<Rightarrow> attrs option \<Rightarrow> bool" where
  "extra_holds key extra = (case extra of None \<Rightarrow> False | Some e \<Rightarrow> e key \<noteq> None)"

text \<open>The float that the literal \<^verbatim>\<open>0.9\<close> denotes (the double nearest to 9/10).\<close>

definition float_0_9 :: rat where
  "float_0_9 = 8106479329266893 / 2 ^ 53"

text \<open>Python's \<^verbatim>\<open>repr\<close> at the two values the concrete instances pass.\<close>

definition example_repr :: "pyval \<Rightarrow> string" where
  "example_repr v =
    (if v = PyBool True then ''True''
     else if v = PyFloat float_0_9 then ''0.9''
     else ''...'')"

section \<open>Properties\<close>

subsection \<open>The decorative attributes\<close>

lemma random_attrs_off: "\<not> RANDOMIZE cfg \<Longrightarrow> random_attrs cfg d = Map.empty"
  by (simp add: random_attrs_def)

lemma random_attrs_outside:
  "k \<notin> set decorative_keys \<Longrightarrow> random_attrs cfg d k = None"
  by (simp add: random_attrs_def decorative_keys_def Let_def)

lemma random_randint_range:
  "a \<le> b \<Longrightarrow> a \<le> random_randint a b r \<and> random_randint a b r \<le> b"
proof -
  assume ab: "a \<le> b"
  then have pos: "0 < nat (b - a + 1)" by simp
  have "r mod nat (b - a + 1) < nat (b - a + 1)"
    using pos by (rule mod_less_divisor)
  then have "int (r mod nat (b - a + 1)) < b - a + 1"
    using ab by linarith
  then show ?thesis
    by (simp add: random_randint_def)
qed

text \<open>
  Claim C9. With randomization enabled, \<^verbatim>\<open>_random_attrs\<close> always writes
  \<^verbatim>\<open>"x-random-power"\<close>, and its value is an integer between 1 and 9000 inclusive,
  whatever the generator hands out.
\<close>

theorem x_random_power_range:
  "RANDOMIZE cfg \<Longrightarrow>
     \<exists>p. random_attrs cfg d ''x-random-power'' = Some (PyInt p) \<and> 1 \<le> p \<and> p \<le> 9000"
  using random_randint_range [of 1 9000 "randint_entropy d"]
  by (simp add: random_attrs_def Let_def)

theorem x_random_power_range_witness:
  "RANDOMIZE example_config \<and>
   (\<exists>p. random_attrs example_config draws_a ''x-random-power'' = Some (PyInt p)
        \<and> 1 \<le> p \<and> p \<le> 9000)"
  using x_random_power_range [of example_config draws_a]
  by (simp add: example_config_def)

subsection \<open>\<^verbatim>\<open>get_traceparent\<close>\<close>

text \<open>
  Claim C7. A \<^verbatim>\<open>LogfireSpan\<close> whose \<^verbatim>\<open>_span\<close> is \<^verbatim>\<open>None\<close> makes \<^verbatim>\<open>get_traceparent\<close> fail
  with the assertion, whatever the propagator is. A \<^verbatim>\<open>LogfireSpan\<close> that holds a span
  behaves as that span given directly, and neither ends in the assertion.
\<close>

theorem get_traceparent_assertion:
  "get_traceparent set_span_in_context inject (LogfireSpan None) = Inl AssertionError
   \<and> get_traceparent set_span_in_context inject (LogfireSpan (Some s))
       = get_traceparent set_span_in_context inject (Span s)
   \<and> get_traceparent set_span_in_context inject (Span s) \<noteq> Inl AssertionError"
  by (simp add: get_traceparent_def Let_def)

text \<open>
  Claim C6. When the propagator leaves no \<^verbatim>\<open>traceparent\<close> entry in the empty carrier for
  the span's context, \<^verbatim>\<open>get_traceparent\<close> returns the empty string, for the span given
  directly and for a \<^verbatim>\<open>LogfireSpan\<close> that holds it.
\<close>

theorem get_traceparent_no_header:
  "inject (set_span_in_context s) Map.empty TRACEPARENT_NAME = None \<Longrightarrow>
   get_traceparent set_span_in_context inject (Span s) = Inr ''''
   \<and> get_traceparent set_span_in_context inject (LogfireSpan (Some s)) = Inr ''''"
  by (simp add: get_traceparent_def Let_def)

theorem get_traceparent_no_header_witness:
  "get_traceparent (\<lambda>s::unit. s) (\<lambda>context carrier. carrier) (Span ()) = Inr ''''
   \<and> get_traceparent (\<lambda>s::unit. s) (\<lambda>context carrier. carrier) (LogfireSpan (Some ()))
       = Inr ''''"
  using get_traceparent_no_header [of "\<lambda>context carrier. carrier" "\<lambda>s::unit. s" "()"]
  by simp

subsection \<open>\<^verbatim>\<open>record_feedback\<close>: the assertion\<close>

text \<open>
  Claim C3. When \<^verbatim>\<open>extra\<close> is a dictionary that holds the key \<^verbatim>\<open>name\<close>,
  \<^verbatim>\<open>record_feedback\<close> ends in the assertion and the backend's log is the one it was
  given: nothing was emitted.
\<close>

theorem record_feedback_collision:
  "extra name = Some v \<Longrightarrow>
   record_feedback cfg d1 d2 repr traceparent name val comment (Some extra) spans
     = (Inl AssertionError, spans)"
proof -
  assume hit: "extra name = Some v"
  then have "extra \<noteq> Map.empty" by auto
  with hit show ?thesis
    by (simp add: record_feedback_def Let_def)
qed

theorem record_feedback_collision_witness:
  "record_feedback example_config draws_a draws_b example_repr example_traceparent
      ''score'' (PyFloat float_0_9) None (Some [''score'' \<mapsto> PyInt 1]) []
     = (Inl AssertionError, [])"
  using record_feedback_collision [of "[''score'' \<mapsto> PyInt 1]" "''score''" "PyInt 1"]
  by simp

subsection \<open>\<^verbatim>\<open>raw_annotate_span\<close>\<close>

lemma raw_annotate_span_emits:
  assumes "(A ++ random_attrs cfg d) (ATTRIBUTES_MESSAGE_KEY cfg) = None"
      and "(A ++ random_attrs cfg d) (ATTRIBUTES_SPAN_TYPE_KEY cfg) = None"
  shows "raw_annotate_span cfg d tp span_name message A spans
           = (Inr (), spans @ [call_of cfg tp span_name message (A ++ random_attrs cfg d)])"
  using assms by (simp add: raw_annotate_span_def call_of_def Let_def)

lemma raw_annotate_span_raises:
  assumes "(A ++ random_attrs cfg d) (ATTRIBUTES_MESSAGE_KEY cfg) \<noteq> None
           \<or> (A ++ random_attrs cfg d) (ATTRIBUTES_SPAN_TYPE_KEY cfg) \<noteq> None"
  shows "raw_annotate_span cfg d tp span_name message A spans = (Inl TypeError, spans)"
  using assms by (simp add: raw_annotate_span_def Let_def)

lemma raw_annotate_span_returned:
  assumes "raw_annotate_span cfg d tp span_name message A spans = (Inr (), spans')"
  shows "(A ++ random_attrs cfg d) (ATTRIBUTES_MESSAGE_KEY cfg) = None
         \<and> (A ++ random_attrs cfg d) (ATTRIBUTES_SPAN_TYPE_KEY cfg) = None
         \<and> spans' = spans @ [call_of cfg tp span_name message (A ++ random_attrs cfg d)]"
  using assms by (simp add: raw_annotate_span_def call_of_def Let_def split: if_splits)

text \<open>No partial write: a call either raises and leaves the log as it was, or appends one entry.\<close>

lemma raw_annotate_span_atomic:
  "raw_annotate_span cfg d tp span_name message A spans = (Inl TypeError, spans)
   \<or> raw_annotate_span cfg d tp span_name message A spans
        = (Inr (), spans @ [call_of cfg tp span_name message (A ++ random_attrs cfg d)])"
  by (simp add: raw_annotate_span_def call_of_def Let_def)

lemma attributes_of_call:
  assumes "decorated (ATTRIBUTES_MESSAGE_KEY cfg) = None"
      and "decorated (ATTRIBUTES_SPAN_TYPE_KEY cfg) = None"
  shows "attributes_of cfg (call_of cfg tp span_name message decorated) = decorated"
  using assms by (auto simp: attributes_of_def call_of_def fun_eq_iff map_add_def)

lemma kwargs_call_unreserved:
  assumes "k \<noteq> ATTRIBUTES_MESSAGE_KEY cfg" and "k \<noteq> ATTRIBUTES_SPAN_TYPE_KEY cfg"
  shows "kwargs (call_of cfg tp span_name message decorated) k = decorated k"
  using assms by (simp add: call_of_def map_add_def)

text \<open>What \<^verbatim>\<open>_random_attrs\<close> returns on the two example runs.\<close>

lemma random_attrs_draws_a:
  "random_attrs example_config draws_a =
     [''x-random-uuid'' \<mapsto> PyStr ''9f1c2a44-7b7e-4d0a-8a55-3c1f0e6b2d10'',
      ''x-random-emoji'' \<mapsto> PyStr (emojis ! 3),
      ''x-random-power'' \<mapsto> PyInt 6457,
      ''x-random-ts'' \<mapsto> PyFloat 1730000000,
      ''x-random-seed'' \<mapsto> PyInt 7]"
  by (simp add: random_attrs_def example_config_def draws_a_def Let_def random_choice_def
      emojis_def random_randint_def random_getrandbits_def random_random_def float_0_05_def)

lemma random_attrs_draws_b:
  "random_attrs example_config draws_b =
     [''x-random-uuid'' \<mapsto> PyStr ''0b8e6c1d-2f43-4c9a-b1de-5a7709c4e3f2'',
      ''x-random-emoji'' \<mapsto> PyStr (emojis ! 4),
      ''x-random-power'' \<mapsto> PyInt 9000,
      ''x-random-ts'' \<mapsto> PyFloat 1730000001,
      ''x-random-seed'' \<mapsto> PyInt 99,
      ''x-random-easter-egg'' \<mapsto> PyStr ''may_the_force_be_with_you'']"
  by (simp add: random_attrs_def example_config_def draws_b_def Let_def random_choice_def
      emojis_def random_randint_def random_getrandbits_def random_random_def float_0_05_def)

text \<open>
  Claim C1. The claim says a caller's value under a decorative key survives. The merge
  is \<^verbatim>\<open>{**attributes, **_random_attrs()}\<close>, so the decorative value replaces it: a caller
  who passes \<^verbatim>\<open>{"x-random-power": "mine"}\<close> gets one span whose \<^verbatim>\<open>"x-random-power"\<close> is
  the drawn integer (6457 on this run), not \<^verbatim>\<open>"mine"\<close>.
\<close>

theorem raw_annotate_span_overrides_caller:
  "(let result = raw_annotate_span example_config draws_a example_traceparent ''note''
                   ''a note'' [''x-random-power'' \<mapsto> PyStr ''mine''] []
    in fst result = Inr ()
       \<and> length (snd result) = 1
       \<and> kwargs (last (snd result)) ''x-random-power'' = Some (PyInt 6457))"
proof -
  let ?A = "[''x-random-power'' \<mapsto> PyStr ''mine'']"
  let ?D = "?A ++ random_attrs example_config draws_a"
  have msg: "?D (ATTRIBUTES_MESSAGE_KEY example_config) = None"
    by (simp add: random_attrs_draws_a) (simp add: example_config_def)
  have span_type: "?D (ATTRIBUTES_SPAN_TYPE_KEY example_config) = None"
    by (simp add: random_attrs_draws_a) (simp add: example_config_def)
  have "kwargs (call_of example_config example_traceparent ''note'' ''a note'' ?D)
          ''x-random-power'' = ?D ''x-random-power''"
    by (rule kwargs_call_unreserved) (simp_all add: example_config_def)
  moreover have "?D ''x-random-power'' = Some (PyInt 6457)"
    by (simp add: random_attrs_draws_a)
  ultimately show ?thesis
    by (simp only: raw_annotate_span_emits [OF msg span_type] Let_def) simp
qed

text \<open>
  Claim C2, as stated, fails for an attribute map that holds one of the two reserved
  keys: the key is then passed twice as a keyword argument, the call raises
  \<^verbatim>\<open>TypeError\<close> and nothing is emitted. Here the caller passes \<^verbatim>\<open>{"logfire.msg": "mine"}\<close>,
  whose key is none of the decorative keys.
\<close>

theorem raw_annotate_span_reserved_key_counterexample:
  "dom [''logfire.msg'' \<mapsto> PyStr ''mine''] \<inter> dom (random_attrs example_config draws_a) = {}
   \<and> raw_annotate_span example_config draws_a example_traceparent ''note'' ''a note''
        [''logfire.msg'' \<mapsto> PyStr ''mine''] []
       = (Inl TypeError, [])"
proof
  show "dom [''logfire.msg'' \<mapsto> PyStr ''mine''] \<inter> dom (random_attrs example_config draws_a)
          = {}"
    by (simp add: random_attrs_draws_a)
  have "([''logfire.msg'' \<mapsto> PyStr ''mine''] ++ random_attrs example_config draws_a)
          (ATTRIBUTES_MESSAGE_KEY example_config) \<noteq> None"
    by (simp add: random_attrs_draws_a) (simp add: example_config_def)
  then show "raw_annotate_span example_config draws_a example_traceparent ''note'' ''a note''
        [''logfire.msg'' \<mapsto> PyStr ''mine''] [] = (Inl TypeError, [])"
    by (simp add: raw_annotate_span_raises)
qed

text \<open>
  Claim C2, amended. Let \<open>A\<close> be the caller's attributes and \<open>D\<close> what \<^verbatim>\<open>_random_attrs\<close>
  returns, with disjoint keys, and let neither hold a reserved key. Then
  \<^verbatim>\<open>raw_annotate_span\<close> appends exactly one call to the log, and the keyword arguments of
  that call other than the two reserved ones are the union of \<open>A\<close> and \<open>D\<close> (the merge in
  either order). With \<^verbatim>\<open>RANDOMIZE\<close> off, the same call carries exactly \<open>A\<close>.
\<close>

theorem raw_annotate_span_union:
  assumes disjoint: "dom A \<inter> dom (random_attrs cfg d) = {}"
      and msg: "(A ++ random_attrs cfg d) (ATTRIBUTES_MESSAGE_KEY cfg) = None"
      and span_type: "(A ++ random_attrs cfg d) (ATTRIBUTES_SPAN_TYPE_KEY cfg) = None"
  shows "(\<exists>e. raw_annotate_span cfg d traceparent span_name message A spans
                 = (Inr (), spans @ [e])
             \<and> attributes_of cfg e = A ++ random_attrs cfg d
             \<and> attributes_of cfg e = random_attrs cfg d ++ A)
         \<and> (\<exists>e. raw_annotate_span (cfg\<lparr>RANDOMIZE := False\<rparr>) d traceparent span_name message
                   A spans = (Inr (), spans @ [e])
               \<and> attributes_of (cfg\<lparr>RANDOMIZE := False\<rparr>) e = A)"
proof
  have "attributes_of cfg (call_of cfg traceparent span_name message (A ++ random_attrs cfg d))
          = A ++ random_attrs cfg d"
    using msg span_type by (rule attributes_of_call)
  moreover have "A ++ random_attrs cfg d = random_attrs cfg d ++ A"
    using disjoint by (rule map_add_comm)
  ultimately show "\<exists>e. raw_annotate_span cfg d traceparent span_name message A spans
                 = (Inr (), spans @ [e])
             \<and> attributes_of cfg e = A ++ random_attrs cfg d
             \<and> attributes_of cfg e = random_attrs cfg d ++ A"
    using raw_annotate_span_emits [OF msg span_type] by simp
next
  let ?off = "cfg\<lparr>RANDOMIZE := False\<rparr>"
  have empty: "random_attrs ?off d = Map.empty"
    by (simp add: random_attrs_off)
  have a_msg: "A (ATTRIBUTES_MESSAGE_KEY cfg) = None"
    using msg by simp
  have a_span_type: "A (ATTRIBUTES_SPAN_TYPE_KEY cfg) = None"
    using span_type by simp
  have "raw_annotate_span ?off d traceparent span_name message A spans
          = (Inr (), spans @ [call_of ?off traceparent span_name message A])"
    using raw_annotate_span_emits [of A ?off d] a_msg a_span_type empty by simp
  moreover have "attributes_of ?off (call_of ?off traceparent span_name message A) = A"
    using attributes_of_call [of A ?off] a_msg a_span_type by simp
  ultimately show "\<exists>e. raw_annotate_span ?off d traceparent span_name message A spans
                   = (Inr (), spans @ [e]) \<and> attributes_of ?off e = A"
    by simp
qed

theorem raw_annotate_span_union_witness:
  "(\<exists>e. raw_annotate_span example_config draws_b example_traceparent ''note'' ''a note''
           [''author'' \<mapsto> PyStr ''alice'', ''stars'' \<mapsto> PyInt 4] []
           = (Inr (), [e])
       \<and> attributes_of example_config e
           = [''author'' \<mapsto> PyStr ''alice'', ''stars'' \<mapsto> PyInt 4]
               ++ random_attrs example_config draws_b
       \<and> attributes_of example_config e
           = random_attrs example_config draws_b
               ++ [''author'' \<mapsto> PyStr ''alice'', ''stars'' \<mapsto> PyInt 4])
   \<and> (\<exists>e. raw_annotate_span (example_config\<lparr>RANDOMIZE := False\<rparr>) draws_b
             example_traceparent ''note'' ''a note''
             [''author'' \<mapsto> PyStr ''alice'', ''stars'' \<mapsto> PyInt 4] []
             = (Inr (), [e])
         \<and> attributes_of (example_config\<lparr>RANDOMIZE := False\<rparr>) e
             = [''author'' \<mapsto> PyStr ''alice'', ''stars'' \<mapsto> PyInt 4])"
proof -
  let ?A = "[''author'' \<mapsto> PyStr ''alice'', ''stars'' \<mapsto> PyInt 4]"
  have disjoint: "dom ?A \<inter> dom (random_attrs example_config draws_b) = {}"
    by (simp add: random_attrs_draws_b)
  have msg: "(?A ++ random_attrs example_config draws_b)
               (ATTRIBUTES_MESSAGE_KEY example_config) = None"
    by (simp add: random_attrs_draws_b) (simp add: example_config_def)
  have span_type: "(?A ++ random_attrs example_config draws_b)
               (ATTRIBUTES_SPAN_TYPE_KEY example_config) = None"
    by (simp add: random_attrs_draws_b) (simp add: example_config_def)
  show ?thesis
    using raw_annotate_span_union [OF disjoint msg span_type, of example_traceparent
        "''note''" "''a note''" "[]"]
    by simp
qed

subsection \<open>\<^verbatim>\<open>record_feedback\<close>: what it hands to \<^verbatim>\<open>raw_annotate_span\<close>\<close>

lemma record_feedback_asserts:
  "extra_holds name extra \<Longrightarrow>
   record_feedback cfg d1 d2 repr tp name val comment extra spans = (Inl AssertionError, spans)"
  by (cases extra) (auto simp: extra_holds_def record_feedback_def Let_def)

lemma record_feedback_delegates:
  "\<not> extra_holds name extra \<Longrightarrow>
   record_feedback cfg d1 d2 repr tp name val comment extra spans
     = raw_annotate_span cfg d2 tp (''feedback: '' @ name)
         (''feedback: '' @ name @ '' = '' @ repr val)
         (feedback_attributes name val comment extra ++ random_attrs cfg d1) spans"
  by (cases extra; cases comment)
     (auto simp: extra_holds_def record_feedback_def feedback_attributes_def Let_def)

lemma record_feedback_returned:
  assumes "record_feedback cfg d1 d2 repr tp name val comment extra spans = (Inr (), spans')"
  shows "\<not> extra_holds name extra"
    and "raw_annotate_span cfg d2 tp (''feedback: '' @ name)
           (''feedback: '' @ name @ '' = '' @ repr val)
           (feedback_attributes name val comment extra ++ random_attrs cfg d1) spans
         = (Inr (), spans')"
proof -
  show no: "\<not> extra_holds name extra"
    using assms record_feedback_asserts [of name extra] by auto
  show "raw_annotate_span cfg d2 tp (''feedback: '' @ name)
           (''feedback: '' @ name @ '' = '' @ repr val)
           (feedback_attributes name val comment extra ++ random_attrs cfg d1) spans
         = (Inr (), spans')"
    using assms record_feedback_delegates [OF no] by simp
qed

lemma record_feedback_atomic:
  "(\<exists>err. record_feedback cfg d1 d2 repr tp name val comment extra spans = (Inl err, spans))
   \<or> (\<exists>e. record_feedback cfg d1 d2 repr tp name val comment extra spans
             = (Inr (), spans @ [e]))"
proof (cases "extra_holds name extra")
  case True
  then show ?thesis
    by (simp add: record_feedback_asserts)
next
  case False
  then show ?thesis
    using raw_annotate_span_atomic
      [of cfg d2 tp "''feedback: '' @ name" "''feedback: '' @ name @ '' = '' @ repr val"
          "feedback_attributes name val comment extra ++ random_attrs cfg d1" spans]
    by (auto simp: record_feedback_delegates)
qed

lemma random_attrs_comment_key:
  "random_attrs cfg d ''logfire.feedback.comment'' = None"
  by (rule random_attrs_outside) (simp add: decorative_keys_def)

lemma random_attrs_reserved_example:
  "random_attrs example_config d (ATTRIBUTES_MESSAGE_KEY example_config) = None"
  "random_attrs example_config d (ATTRIBUTES_SPAN_TYPE_KEY example_config) = None"
  by (rule random_attrs_outside, simp add: decorative_keys_def example_config_def)+

lemma record_feedback_example_returns:
  assumes "name \<noteq> ''logfire.msg''" and "name \<noteq> ''logfire.span_type''"
      and "case extra of None \<Rightarrow> True
           | Some e \<Rightarrow> e name = None \<and> e ''logfire.msg'' = None \<and> e ''logfire.span_type'' = None"
  shows "\<exists>spans'. record_feedback example_config d1 d2 repr tp name val comment extra spans
                    = (Inr (), spans')"
proof -
  have collides: "\<not> extra_holds name extra"
    using assms(3) by (cases extra) (simp_all add: extra_holds_def)
  have "feedback_attributes name val comment extra (ATTRIBUTES_MESSAGE_KEY example_config) = None"
       "feedback_attributes name val comment extra (ATTRIBUTES_SPAN_TYPE_KEY example_config) = None"
    using assms
    by (cases extra; cases comment;
        simp add: feedback_attributes_def Let_def example_config_def map_add_def)+
  then have "(feedback_attributes name val comment extra
                ++ random_attrs example_config d1 ++ random_attrs example_config d2)
               (ATTRIBUTES_MESSAGE_KEY example_config) = None"
            "(feedback_attributes name val comment extra
                ++ random_attrs example_config d1 ++ random_attrs example_config d2)
               (ATTRIBUTES_SPAN_TYPE_KEY example_config) = None"
    by (simp_all add: random_attrs_reserved_example)
  then show ?thesis
    using collides by (simp add: record_feedback_delegates raw_annotate_span_emits)
qed

text \<open>
  Claim C4. Called with a name and a value only, \<^verbatim>\<open>record_feedback\<close> appends exactly one
  call to the log: its span name is \<^verbatim>\<open>"feedback: " + name\<close>, its attributes hold
  \<^verbatim>\<open>"logfire.feedback.name"\<close> with the name and the name with the value, and its message
  (the keyword argument under the message key) is
  \<^verbatim>\<open>"feedback: " + name + " = " + repr(value)\<close>. The name is any string that is neither
  \<^verbatim>\<open>"logfire.feedback.name"\<close> nor a decorative key; the two reserved keys are distinct and
  are neither the name, \<^verbatim>\<open>"logfire.feedback.name"\<close> nor a decorative key. The instance
  below is \<^verbatim>\<open>record_feedback(tp, "score", 0.9)\<close> with the reserved keys of the library.
\<close>

theorem record_feedback_span:
  assumes name: "name \<notin> set decorative_keys" "name \<noteq> ''logfire.feedback.name''"
      and msg: "ATTRIBUTES_MESSAGE_KEY cfg
                  \<notin> {''logfire.feedback.name'', name} \<union> set decorative_keys"
      and span_type: "ATTRIBUTES_SPAN_TYPE_KEY cfg
                  \<notin> {''logfire.feedback.name'', name} \<union> set decorative_keys"
      and distinct: "ATTRIBUTES_MESSAGE_KEY cfg \<noteq> ATTRIBUTES_SPAN_TYPE_KEY cfg"
  shows "\<exists>e. record_feedback cfg d1 d2 repr traceparent name val None None spans
               = (Inr (), spans @ [e])
           \<and> msg_template e = ''feedback: '' @ name
           \<and> kwargs e ''logfire.feedback.name'' = Some (PyStr name)
           \<and> kwargs e name = Some val
           \<and> kwargs e (ATTRIBUTES_MESSAGE_KEY cfg)
               = Some (PyStr (''feedback: '' @ name @ '' = '' @ repr val))
           \<and> kwargs e (ATTRIBUTES_SPAN_TYPE_KEY cfg) = Some (PyStr ''annotation'')"
proof -
  let ?A = "feedback_attributes name val None None ++ random_attrs cfg d1"
  let ?D = "?A ++ random_attrs cfg d2"
  let ?e = "call_of cfg traceparent (''feedback: '' @ name)
              (''feedback: '' @ name @ '' = '' @ repr val) ?D"
  have base: "feedback_attributes name val None None
                = [''logfire.feedback.name'' \<mapsto> PyStr name, name \<mapsto> val]"
    by (simp add: feedback_attributes_def)
  have d1_msg: "random_attrs cfg d1 (ATTRIBUTES_MESSAGE_KEY cfg) = None"
   and d2_msg: "random_attrs cfg d2 (ATTRIBUTES_MESSAGE_KEY cfg) = None"
   and d1_st: "random_attrs cfg d1 (ATTRIBUTES_SPAN_TYPE_KEY cfg) = None"
   and d2_st: "random_attrs cfg d2 (ATTRIBUTES_SPAN_TYPE_KEY cfg) = None"
    using msg span_type by (simp_all add: random_attrs_outside)
  have d1_name: "random_attrs cfg d1 name = None" and d2_name: "random_attrs cfg d2 name = None"
    using name by (simp_all add: random_attrs_outside)
  have "''logfire.feedback.name'' \<notin> set decorative_keys"
    by (simp add: decorative_keys_def)
  then have d1_lfn: "random_attrs cfg d1 ''logfire.feedback.name'' = None"
        and d2_lfn: "random_attrs cfg d2 ''logfire.feedback.name'' = None"
    by (simp_all add: random_attrs_outside)
  have free_msg: "?D (ATTRIBUTES_MESSAGE_KEY cfg) = None"
    using msg d1_msg d2_msg by (simp add: base map_add_None)
  have free_st: "?D (ATTRIBUTES_SPAN_TYPE_KEY cfg) = None"
    using span_type d1_st d2_st by (simp add: base map_add_None)
  have "\<not> extra_holds name None"
    by (simp add: extra_holds_def)
  then have run: "record_feedback cfg d1 d2 repr traceparent name val None None spans
                    = (Inr (), spans @ [?e])"
    using raw_annotate_span_emits [OF free_msg free_st]
    by (simp add: record_feedback_delegates)
  have "''logfire.feedback.name'' \<noteq> ATTRIBUTES_MESSAGE_KEY cfg"
       "''logfire.feedback.name'' \<noteq> ATTRIBUTES_SPAN_TYPE_KEY cfg"
    using msg span_type by auto
  then have "kwargs ?e ''logfire.feedback.name'' = ?D ''logfire.feedback.name''"
    by (rule kwargs_call_unreserved)
  moreover have "?D ''logfire.feedback.name'' = Some (PyStr name)"
    using name d1_lfn d2_lfn by (simp add: base map_add_def)
  ultimately have lfn: "kwargs ?e ''logfire.feedback.name'' = Some (PyStr name)"
    by simp
  have "name \<noteq> ATTRIBUTES_MESSAGE_KEY cfg" "name \<noteq> ATTRIBUTES_SPAN_TYPE_KEY cfg"
    using msg span_type by auto
  then have "kwargs ?e name = ?D name"
    by (rule kwargs_call_unreserved)
  moreover have "?D name = Some val"
    using d1_name d2_name by (simp add: base map_add_def)
  ultimately have nm: "kwargs ?e name = Some val"
    by simp
  have m: "kwargs ?e (ATTRIBUTES_MESSAGE_KEY cfg)
             = Some (PyStr (''feedback: '' @ name @ '' = '' @ repr val))"
    using distinct by (simp add: call_of_def)
  have st: "kwargs ?e (ATTRIBUTES_SPAN_TYPE_KEY cfg) = Some (PyStr ''annotation'')"
    by (simp add: call_of_def)
  have "msg_template ?e = ''feedback: '' @ name"
    by (simp add: call_of_def)
  with run lfn nm m st show ?thesis
    by blast
qed

theorem record_feedback_span_witness:
  "\<forall>traceparent d1 d2 repr spans.
     \<exists>e. record_feedback example_config d1 d2 repr traceparent ''score''
            (PyFloat float_0_9) None None spans
            = (Inr (), spans @ [e])
        \<and> msg_template e = ''feedback: score''
        \<and> kwargs e ''logfire.feedback.name'' = Some (PyStr ''score'')
        \<and> kwargs e ''score'' = Some (PyFloat float_0_9)
        \<and> kwargs e ''logfire.msg''
            = Some (PyStr (''feedback: score = '' @ repr (PyFloat float_0_9)))
        \<and> kwargs e ''logfire.span_type'' = Some (PyStr ''annotation'')"
proof (intro allI)
  fix traceparent d1 d2 repr spans
  show "\<exists>e. record_feedback example_config d1 d2 repr traceparent ''score''
            (PyFloat float_0_9) None None spans
            = (Inr (), spans @ [e])
        \<and> msg_template e = ''feedback: score''
        \<and> kwargs e ''logfire.feedback.name'' = Some (PyStr ''score'')
        \<and> kwargs e ''score'' = Some (PyFloat float_0_9)
        \<and> kwargs e ''logfire.msg''
            = Some (PyStr (''feedback: score = '' @ repr (PyFloat float_0_9)))
        \<and> kwargs e ''logfire.span_type'' = Some (PyStr ''annotation'')"
    using record_feedback_span [of "''score''" example_config d1 d2 repr traceparent
        "PyFloat float_0_9" spans]
    by (simp add: example_config_def decorative_keys_def)
qed

subsection \<open>\<^verbatim>\<open>record_feedback\<close>: the comment\<close>

text \<open>
  Claim C8, as stated, fails: the key \<^verbatim>\<open>"logfire.feedback.comment"\<close> can also come from
  \<^verbatim>\<open>extra\<close> (or be the name). With an empty comment and
  \<^verbatim>\<open>extra={"logfire.feedback.comment": ""}\<close> the call emits one span that holds the key,
  with the given (empty) comment as its value.
\<close>

theorem record_feedback_comment_counterexample:
  "(let result = record_feedback example_config draws_a draws_b example_repr example_traceparent
                   ''ok'' (PyBool True) (Some '''')
                   (Some [''logfire.feedback.comment'' \<mapsto> PyStr '''']) []
    in fst result = Inr ()
       \<and> length (snd result) = 1
       \<and> attributes_of example_config (last (snd result)) ''logfire.feedback.comment''
           = Some (PyStr ''''))"
proof -
  let ?extra = "Some [''logfire.feedback.comment'' \<mapsto> PyStr '''']"
  let ?D = "feedback_attributes ''ok'' (PyBool True) (Some '''') ?extra
              ++ random_attrs example_config draws_a ++ random_attrs example_config draws_b"
  have collides: "\<not> extra_holds ''ok'' ?extra"
    by (simp add: extra_holds_def)
  have base: "feedback_attributes ''ok'' (PyBool True) (Some '''') ?extra
                = [''logfire.feedback.name'' \<mapsto> PyStr ''ok'', ''ok'' \<mapsto> PyBool True,
                   ''logfire.feedback.comment'' \<mapsto> PyStr '''']"
    by (simp add: feedback_attributes_def)
  have free: "?D (ATTRIBUTES_MESSAGE_KEY example_config) = None"
             "?D (ATTRIBUTES_SPAN_TYPE_KEY example_config) = None"
    by (simp_all add: random_attrs_reserved_example base) (simp_all add: example_config_def)
  have run: "record_feedback example_config draws_a draws_b example_repr example_traceparent
               ''ok'' (PyBool True) (Some '''') ?extra []
             = (Inr (), [call_of example_config example_traceparent (''feedback: '' @ ''ok'')
                  (''feedback: '' @ ''ok'' @ '' = '' @ example_repr (PyBool True)) ?D])"
    unfolding record_feedback_delegates [OF collides]
    using raw_annotate_span_emits [OF free] by simp
  have "attributes_of example_config
          (call_of example_config example_traceparent (''feedback: '' @ ''ok'')
             (''feedback: '' @ ''ok'' @ '' = '' @ example_repr (PyBool True)) ?D) = ?D"
    using free by (rule attributes_of_call)
  moreover have "?D ''logfire.feedback.comment'' = Some (PyStr '''')"
    by (simp add: base map_add_def random_attrs_comment_key)
  ultimately show ?thesis
    by (simp only: run Let_def) simp
qed

text \<open>
  Claim C8, amended. Whenever \<^verbatim>\<open>record_feedback\<close> returns, it has appended one call.
  If the comment is a non-empty string, that call's attribute
  \<^verbatim>\<open>"logfire.feedback.comment"\<close> is the comment, for every name, value and \<^verbatim>\<open>extra\<close>: the
  comment is written after \<^verbatim>\<open>extra\<close> is merged. If the comment is \<^verbatim>\<open>None\<close> or empty,
  nothing is added: the attribute is what the name and \<^verbatim>\<open>extra\<close> alone supply. So when the
  name is other than \<^verbatim>\<open>"logfire.feedback.comment"\<close> and \<^verbatim>\<open>extra\<close> does not hold that key,
  the attribute is the comment when the comment is a non-empty string and is absent
  otherwise.
\<close>

theorem record_feedback_comment:
  assumes returned: "record_feedback cfg d1 d2 repr traceparent name val comment extra spans
                       = (Inr (), spans')"
  shows "\<exists>e. spans' = spans @ [e]
           \<and> attributes_of cfg e ''logfire.feedback.comment''
               = (case comment of
                    None \<Rightarrow> feedback_attributes name val None extra ''logfire.feedback.comment''
                  | Some c \<Rightarrow>
                      if c = []
                      then feedback_attributes name val None extra ''logfire.feedback.comment''
                      else Some (PyStr c))
           \<and> (name \<noteq> ''logfire.feedback.comment''
                 \<and> \<not> extra_holds ''logfire.feedback.comment'' extra
               \<longrightarrow> attributes_of cfg e ''logfire.feedback.comment''
                     = (case comment of
                          None \<Rightarrow> None
                        | Some c \<Rightarrow> if c = [] then None else Some (PyStr c)))"
proof -
  let ?ck = "''logfire.feedback.comment''"
  let ?supplied = "feedback_attributes name val None extra ?ck"
  let ?A = "feedback_attributes name val comment extra ++ random_attrs cfg d1"
  let ?D = "?A ++ random_attrs cfg d2"
  let ?e = "call_of cfg traceparent (''feedback: '' @ name)
              (''feedback: '' @ name @ '' = '' @ repr val) ?D"
  from record_feedback_returned(2) [OF returned]
  have free: "?D (ATTRIBUTES_MESSAGE_KEY cfg) = None" "?D (ATTRIBUTES_SPAN_TYPE_KEY cfg) = None"
    and log: "spans' = spans @ [?e]"
    using raw_annotate_span_returned by blast+
  have "attributes_of cfg ?e = ?D"
    using free by (rule attributes_of_call)
  then have "attributes_of cfg ?e ?ck = feedback_attributes name val comment extra ?ck"
    by (simp add: map_add_def random_attrs_comment_key)
  also have "\<dots> = (case comment of
                    None \<Rightarrow> ?supplied
                  | Some c \<Rightarrow> if c = [] then ?supplied else Some (PyStr c))"
    by (cases comment) (simp_all add: feedback_attributes_def Let_def)
  finally have emitted: "attributes_of cfg ?e ?ck
      = (case comment of
           None \<Rightarrow> ?supplied
         | Some c \<Rightarrow> if c = [] then ?supplied else Some (PyStr c))" .
  have absent: "?supplied = None"
    if "name \<noteq> ?ck \<and> \<not> extra_holds ?ck extra"
    using that
    by (cases extra) (auto simp: feedback_attributes_def extra_holds_def map_add_def Let_def)
  have "attributes_of cfg ?e ?ck
          = (case comment of None \<Rightarrow> None | Some c \<Rightarrow> if c = [] then None else Some (PyStr c))"
    if "name \<noteq> ?ck \<and> \<not> extra_holds ?ck extra"
    using emitted absent [OF that] by (simp split: option.splits)
  with log emitted show ?thesis
    by blast
qed

theorem record_feedback_comment_witness:
  "(\<exists>e. record_feedback example_config draws_a draws_b example_repr
           example_traceparent ''ok'' (PyBool True) (Some ''why'')
           (Some [''logfire.feedback.comment'' \<mapsto> PyStr ''from extra'']) [] = (Inr (), [e])
        \<and> attributes_of example_config e ''logfire.feedback.comment'' = Some (PyStr ''why''))
   \<and> (\<exists>e. record_feedback example_config draws_a draws_b example_repr
           example_traceparent ''ok'' (PyBool True) (Some ''looks good'') None [] = (Inr (), [e])
        \<and> attributes_of example_config e ''logfire.feedback.comment''
            = Some (PyStr ''looks good''))
   \<and> (\<exists>e. record_feedback example_config draws_a draws_b example_repr
           example_traceparent ''ok'' (PyBool True) (Some '''') None [] = (Inr (), [e])
        \<and> attributes_of example_config e ''logfire.feedback.comment'' = None)"
proof -
  let ?run = "\<lambda>comment extra. record_feedback example_config draws_a draws_b example_repr
                example_traceparent ''ok'' (PyBool True) comment extra []"
  let ?extra = "Some [''logfire.feedback.comment'' \<mapsto> PyStr ''from extra'']"
  have free: "''ok'' \<noteq> ''logfire.feedback.comment''
              \<and> \<not> extra_holds ''logfire.feedback.comment'' None"
    by (simp add: extra_holds_def)
  obtain s0 where run0: "?run (Some ''why'') ?extra = (Inr (), s0)"
    using record_feedback_example_returns [of "''ok''" ?extra draws_a draws_b example_repr
        example_traceparent "PyBool True" "Some ''why''" "[]"]
    by auto
  obtain s1 where run1: "?run (Some ''looks good'') None = (Inr (), s1)"
    using record_feedback_example_returns [of "''ok''" None draws_a draws_b example_repr
        example_traceparent "PyBool True" "Some ''looks good''" "[]"]
    by auto
  obtain s2 where run2: "?run (Some '''') None = (Inr (), s2)"
    using record_feedback_example_returns [of "''ok''" None draws_a draws_b example_repr
        example_traceparent "PyBool True" "Some ''''" "[]"]
    by auto
  show ?thesis
    using record_feedback_comment [OF run0] record_feedback_comment [OF run1]
      record_feedback_comment [OF run2] free run0 run1 run2
    by auto
qed

subsection \<open>\<^verbatim>\<open>record_feedback\<close>: two runs of \<^verbatim>\<open>_random_attrs\<close>\<close>

lemma easter_egg_threshold:
  "random_random r < float_0_05 \<longleftrightarrow> r mod 2 ^ 53 < 450359962737050"
proof -
  let ?m = "r mod 2 ^ 53"
  have "random_random r < float_0_05 \<longleftrightarrow> (of_nat (?m * 8) :: rat) < of_nat 3602879701896397"
    unfolding random_random_def float_0_05_def
    by (simp add: divide_less_eq less_divide_eq field_simps)
  also have "\<dots> \<longleftrightarrow> ?m * 8 < 3602879701896397"
    by (simp only: of_nat_less_iff)
  also have "\<dots> \<longleftrightarrow> ?m < 450359962737050"
    by arith
  finally show ?thesis .
qed

lemma easter_egg_present:
  "random_attrs cfg d ''x-random-easter-egg'' \<noteq> None
     \<longleftrightarrow> RANDOMIZE cfg \<and> random_random (random_entropy d) < float_0_05"
  by (simp add: random_attrs_def Let_def)

lemma card_either_below:
  fixes t n :: nat
  assumes "t \<le> n"
  shows "card {(a, b). a < n \<and> b < n \<and> (a < t \<or> b < t)} = n * n - (n - t) * (n - t)"
proof -
  have split: "{(a, b). a < n \<and> b < n \<and> (a < t \<or> b < t)}
                 = ({..<n} \<times> {..<n}) - ({t..<n} \<times> {t..<n})"
    by auto
  have "card (({..<n} \<times> {..<n}) - ({t..<n} \<times> {t..<n}))
          = card ({..<n} \<times> {..<n}) - card ({t..<n} \<times> {t..<n})"
    by (rule card_Diff_subset) auto
  then show ?thesis
    by (simp add: split card_cartesian_product)
qed

text \<open>
  Claim C10. With randomization enabled, \<^verbatim>\<open>record_feedback\<close> takes two runs of
  \<^verbatim>\<open>_random_attrs\<close>: its own (\<open>d1\<close>) and the one inside \<^verbatim>\<open>raw_annotate_span\<close> (\<open>d2\<close>).
  Whenever it returns, the one call it appended carries, under every key the second run
  wrote, the second run's value, and under a key only the first run wrote, the first
  run's value. So \<^verbatim>\<open>"x-random-easter-egg"\<close> is there when either run rolled it, and (the
  name and \<^verbatim>\<open>extra\<close> not supplying that key) only then. Of the \<open>2^53 * 2^53\<close> pairs of
  outcomes of the two \<^verbatim>\<open>random.random()\<close> calls, 7910139745424158310810861604700 roll
  it at least once: a share above \<open>1 - 0.95^2\<close> by less than \<open>10^-15\<close>.
\<close>

theorem record_feedback_draws_twice:
  assumes on: "RANDOMIZE cfg"
      and returned: "record_feedback cfg d1 d2 repr traceparent name val comment extra spans
                       = (Inr (), spans')"
  shows "(\<exists>e. spans' = spans @ [e]
            \<and> (\<forall>k v. random_attrs cfg d2 k = Some v \<longrightarrow> attributes_of cfg e k = Some v)
            \<and> (\<forall>k v. random_attrs cfg d1 k = Some v \<and> random_attrs cfg d2 k = None
                   \<longrightarrow> attributes_of cfg e k = Some v)
            \<and> (name \<noteq> ''x-random-easter-egg'' \<and> \<not> extra_holds ''x-random-easter-egg'' extra
                 \<longrightarrow> (attributes_of cfg e ''x-random-easter-egg'' \<noteq> None
                       \<longleftrightarrow> random_random (random_entropy d1) < float_0_05
                           \<or> random_random (random_entropy d2) < float_0_05)))
         \<and> card {(r1, r2). r1 < 2 ^ 53 \<and> r2 < 2 ^ 53
                    \<and> (random_random r1 < float_0_05 \<or> random_random r2 < float_0_05)}
             = 7910139745424158310810861604700
         \<and> 1 - (95 / 100)\<^sup>2 < (7910139745424158310810861604700 / (2 ^ 53 * 2 ^ 53) :: rat)
         \<and> (7910139745424158310810861604700 / (2 ^ 53 * 2 ^ 53) :: rat)
             < 1 - (95 / 100)\<^sup>2 + 1 / 10 ^ 15"
proof (intro conjI)
  let ?egg = "''x-random-easter-egg''"
  let ?F = "feedback_attributes name val comment extra"
  let ?D = "?F ++ random_attrs cfg d1 ++ random_attrs cfg d2"
  let ?e = "call_of cfg traceparent (''feedback: '' @ name)
              (''feedback: '' @ name @ '' = '' @ repr val) ?D"
  from record_feedback_returned(2) [OF returned]
  have free: "?D (ATTRIBUTES_MESSAGE_KEY cfg) = None" "?D (ATTRIBUTES_SPAN_TYPE_KEY cfg) = None"
    and log: "spans' = spans @ [?e]"
    using raw_annotate_span_returned by blast+
  have emitted: "attributes_of cfg ?e = ?D"
    using free by (rule attributes_of_call)
  have second: "attributes_of cfg ?e k = Some v" if "random_attrs cfg d2 k = Some v" for k v
    using that by (simp only: emitted) (simp add: map_add_def)
  have first: "attributes_of cfg ?e k = Some v"
    if "random_attrs cfg d1 k = Some v \<and> random_attrs cfg d2 k = None" for k v
    using that by (simp only: emitted) (simp add: map_add_def)
  have egg: "attributes_of cfg ?e ?egg \<noteq> None
               \<longleftrightarrow> random_random (random_entropy d1) < float_0_05
                   \<or> random_random (random_entropy d2) < float_0_05"
    if "name \<noteq> ?egg \<and> \<not> extra_holds ?egg extra"
  proof -
    have base: "?F ?egg = None"
      using that
      by (cases extra; cases comment)
         (auto simp: feedback_attributes_def extra_holds_def map_add_def Let_def)
    have "attributes_of cfg ?e ?egg \<noteq> None
            \<longleftrightarrow> random_attrs cfg d1 ?egg \<noteq> None \<or> random_attrs cfg d2 ?egg \<noteq> None"
      using base by (simp only: emitted) (auto simp: map_add_def split: option.splits)
    moreover have "random_attrs cfg d1 ?egg \<noteq> None
                     \<longleftrightarrow> random_random (random_entropy d1) < float_0_05"
      using on easter_egg_present [of cfg d1] by blast
    moreover have "random_attrs cfg d2 ?egg \<noteq> None
                     \<longleftrightarrow> random_random (random_entropy d2) < float_0_05"
      using on easter_egg_present [of cfg d2] by blast
    ultimately show ?thesis
      by blast
  qed
  show "\<exists>e. spans' = spans @ [e]
            \<and> (\<forall>k v. random_attrs cfg d2 k = Some v \<longrightarrow> attributes_of cfg e k = Some v)
            \<and> (\<forall>k v. random_attrs cfg d1 k = Some v \<and> random_attrs cfg d2 k = None
                   \<longrightarrow> attributes_of cfg e k = Some v)
            \<and> (name \<noteq> ''x-random-easter-egg'' \<and> \<not> extra_holds ''x-random-easter-egg'' extra
                 \<longrightarrow> (attributes_of cfg e ''x-random-easter-egg'' \<noteq> None
                       \<longleftrightarrow> random_random (random_entropy d1) < float_0_05
                           \<or> random_random (random_entropy d2) < float_0_05))"
    using log second first egg by blast
next
  have "{(r1, r2). r1 < 2 ^ 53 \<and> r2 < 2 ^ 53
           \<and> (random_random r1 < float_0_05 \<or> random_random r2 < float_0_05)}
        = {(a, b). a < (2 ^ 53 :: nat) \<and> b < (2 ^ 53 :: nat)
             \<and> (a < 450359962737050 \<or> b < 450359962737050)}"
    by (auto simp: easter_egg_threshold)
  then show "card {(r1, r2). r1 < 2 ^ 53 \<and> r2 < 2 ^ 53
                    \<and> (random_random r1 < float_0_05 \<or> random_random r2 < float_0_05)}
             = 7910139745424158310810861604700"
    using card_either_below [of 450359962737050 "2 ^ 53"] by simp
next
  show "1 - (95 / 100)\<^sup>2 < (7910139745424158310810861604700 / (2 ^ 53 * 2 ^ 53) :: rat)"
    by (simp add: power2_eq_square)
next
  show "(7910139745424158310810861604700 / (2 ^ 53 * 2 ^ 53) :: rat)
             < 1 - (95 / 100)\<^sup>2 + 1 / 10 ^ 15"
    by (simp add: power2_eq_square)
qed

theorem record_feedback_draws_twice_witness:
  "\<exists>e. record_feedback example_config draws_b draws_a example_repr example_traceparent
          ''score'' (PyFloat float_0_9) None None [] = (Inr (), [e])
       \<and> attributes_of example_config e ''x-random-power'' = Some (PyInt 6457)
       \<and> attributes_of example_config e ''x-random-easter-egg''
           = Some (PyStr ''may_the_force_be_with_you'')"
proof -
  have on: "RANDOMIZE example_config"
    by (simp add: example_config_def)
  obtain s where run: "record_feedback example_config draws_b draws_a example_repr
      example_traceparent ''score'' (PyFloat float_0_9) None None [] = (Inr (), s)"
    using record_feedback_example_returns [of "''score''" None draws_b draws_a example_repr
        example_traceparent "PyFloat float_0_9" None "[]"]
    by auto
  have power: "random_attrs example_config draws_a ''x-random-power'' = Some (PyInt 6457)"
    by (simp add: random_attrs_draws_a)
  have egg: "random_attrs example_config draws_b ''x-random-easter-egg''
               = Some (PyStr ''may_the_force_be_with_you'')
             \<and> random_attrs example_config draws_a ''x-random-easter-egg'' = None"
    by (simp add: random_attrs_draws_a random_attrs_draws_b)
  from record_feedback_draws_twice [OF on run]
  obtain e where "s = [] @ [e]"
    and second: "\<forall>k v. random_attrs example_config draws_a k = Some v
                   \<longrightarrow> attributes_of example_config e k = Some v"
    and first: "\<forall>k v. random_attrs example_config draws_b k = Some v
                    \<and> random_attrs example_config draws_a k = None
                   \<longrightarrow> attributes_of example_config e k = Some v"
    by blast
  then show ?thesis
    using run power egg by auto
qed

subsection \<open>\<^verbatim>\<open>get_traceparent\<close> through the propagator\<close>

lemma length_hex: "length (hex w n) = w"
  by (induction w arbitrary: n) simp_all

lemma hex_numeral:
  "hex (numeral k) n = hex (pred_numeral k) (n div 16) @ [hex_digit (n mod 16)]"
proof -
  have "hex (Suc (pred_numeral k)) n = hex (pred_numeral k) (n div 16) @ [hex_digit (n mod 16)]"
    by (rule hex.simps(2))
  then show ?thesis
    by (simp only: numeral_eq_Suc [of k, symmetric])
qed

lemma below_sixteen:
  "d < 16 \<Longrightarrow>
     d = 0 \<or> d = 1 \<or> d = 2 \<or> d = 3 \<or> d = 4 \<or> d = 5 \<or> d = 6 \<or> d = 7 \<or> d = 8 \<or> d = 9
     \<or> d = 10 \<or> d = 11 \<or> d = 12 \<or> d = 13 \<or> d = 14 \<or> d = (15::nat)"
  by arith

lemma digit_value_hex_digit: "d < 16 \<Longrightarrow> digit_value (hex_digit d) = Some d"
  by (drule below_sixteen) (auto simp: digit_value_def hex_digit_def Let_def)

lemma hex_digit_not_dash: "d < 16 \<Longrightarrow> hex_digit d \<noteq> CHR ''-''"
  by (drule below_sixteen) (auto simp: hex_digit_def)

lemma hex_no_dash: "CHR ''-'' \<notin> set (hex w n)"
  by (induction w arbitrary: n) (simp_all add: hex_digit_not_dash [symmetric])

lemma unhex_from_append:
  "unhex_from acc (xs @ ys) =
     (case unhex_from acc xs of None \<Rightarrow> None | Some a \<Rightarrow> unhex_from a ys)"
  by (induction xs arbitrary: acc) (simp_all split: option.splits)

lemma unhex_from_hex: "unhex_from acc (hex w n) = Some (acc * 16 ^ w + n mod 16 ^ w)"
proof (induction w arbitrary: n)
  case 0
  show ?case by simp
next
  case (Suc w)
  have "n mod 16 ^ Suc w = 16 * ((n div 16) mod 16 ^ w) + n mod 16"
    by (simp add: mod_mult2_eq)
  then show ?case
    by (simp add: unhex_from_append Suc.IH digit_value_hex_digit algebra_simps)
qed

lemma unhex_hex: "n < 16 ^ w \<Longrightarrow> unhex (hex w n) = Some n"
  by (simp add: unhex_def unhex_from_hex)

lemma fields_no_dash: "CHR ''-'' \<notin> set s \<Longrightarrow> fields s = [s]"
  by (induction s) auto

lemma fields_append_dash:
  "CHR ''-'' \<notin> set s \<Longrightarrow> fields (s @ CHR ''-'' # rest) = s # fields rest"
  by (induction s) auto

lemma fields_traceparent:
  "fields (''00-'' @ hex 32 t @ ''-'' @ hex 16 s @ ''-'' @ hex 2 f)
     = [''00'', hex 32 t, hex 16 s, hex 2 f]"
  by (simp add: fields_append_dash fields_no_dash hex_no_dash)

lemma get_traceparent_valid:
  assumes "is_valid sc"
  shows "get_traceparent otel_set_span_in_context otel_inject (Span sc)
           = Inr (''00-'' @ hex 32 (trace_id sc) @ ''-'' @ hex 16 (span_id sc)
                    @ ''-'' @ hex 2 (trace_flags sc))"
  using assms by (simp add: get_traceparent_def otel_set_span_in_context_def otel_inject_def Let_def)

lemma otel_extract_traceparent:
  assumes "is_valid sc"
  shows "otel_extract [TRACEPARENT_NAME \<mapsto>
            ''00-'' @ hex 32 (trace_id sc) @ ''-'' @ hex 16 (span_id sc)
              @ ''-'' @ hex 2 (trace_flags sc)]
          = Some \<lparr>trace_id = trace_id sc, span_id = span_id sc,
                   trace_flags = trace_flags sc mod 256\<rparr>"
proof -
  have t: "unhex (hex 32 (trace_id sc)) = Some (trace_id sc)"
    using assms by (intro unhex_hex) (simp add: is_valid_def)
  have s: "unhex (hex 16 (span_id sc)) = Some (span_id sc)"
    using assms by (intro unhex_hex) (simp add: is_valid_def)
  have f: "unhex (hex 2 (trace_flags sc)) = Some (trace_flags sc mod 256)"
    by (simp add: unhex_def unhex_from_hex)
  have v: "unhex ''00'' = Some 0"
    by (simp add: unhex_def digit_value_def)
  show ?thesis
    using assms
    by (simp only: otel_extract_def fun_upd_same option.case fields_traceparent list.case
          length_hex t s f v prod.case)
       (simp add: is_valid_def)
qed

text \<open>
  Claim C5. For a span with a valid context, given directly or held by a \<^verbatim>\<open>LogfireSpan\<close>,
  \<^verbatim>\<open>get_traceparent\<close> returns a header; extracting from a carrier that holds that header
  under \<^verbatim>\<open>traceparent\<close> gives a context with the span's trace-id (and span-id).
\<close>

theorem traceparent_round_trip:
  assumes "is_valid sc"
  shows "\<exists>tp restored.
           get_traceparent otel_set_span_in_context otel_inject (Span sc) = Inr tp
         \<and> get_traceparent otel_set_span_in_context otel_inject (LogfireSpan (Some sc)) = Inr tp
         \<and> otel_extract [TRACEPARENT_NAME \<mapsto> tp] = Some restored
         \<and> trace_id restored = trace_id sc
         \<and> span_id restored = span_id sc"
proof -
  let ?tp = "''00-'' @ hex 32 (trace_id sc) @ ''-'' @ hex 16 (span_id sc)
               @ ''-'' @ hex 2 (trace_flags sc)"
  have "get_traceparent otel_set_span_in_context otel_inject (Span sc) = Inr ?tp"
    using assms by (rule get_traceparent_valid)
  moreover have "get_traceparent otel_set_span_in_context otel_inject (LogfireSpan (Some sc)) = Inr ?tp"
    using assms by (simp add: get_traceparent_def otel_set_span_in_context_def otel_inject_def Let_def)
  moreover note otel_extract_traceparent [OF assms]
  ultimately show ?thesis
    by simp
qed

theorem traceparent_round_trip_witness:
  "get_traceparent otel_set_span_in_context otel_inject (Span example_span) = Inr example_traceparent
   \<and> (\<exists>restored. otel_extract [TRACEPARENT_NAME \<mapsto> example_traceparent] = Some restored
         \<and> trace_id restored = 0x0af7651916cd43dd8448eb211c80319c)"
proof -
  have valid: "is_valid example_span"
    by (simp add: is_valid_def example_span_def)
  have "get_traceparent otel_set_span_in_context otel_inject (Span example_span) = Inr example_traceparent"
    by (simp add: get_traceparent_valid [OF valid])
       (simp add: example_span_def example_traceparent_def hex_digit_def hex_numeral)
  then show ?thesis
    using traceparent_round_trip [OF valid] by (auto simp: example_span_def)
qed

end
